theory Spec2Isabelle
  imports Main "HOL-Library.Word"
begin

section \<open>The subscription record (models.go)\<close>

text \<open>
  \<^verbatim>\<open>type Subscription struct\<close> has six fields. \<open>ID\<close> is the primary key and carries no
  JSON tag and no binding tag; \<open>ServiceName\<close>, \<open>Price\<close>, \<open>UserID\<close> and \<open>StartDate\<close> are
  tagged \<^verbatim>\<open>binding:"required"\<close>; \<open>EndDate\<close> is optional. Go's \<open>int\<close> is a 64-bit
  signed integer on the platforms the service runs on.
\<close>

record Subscription =
  ID :: string
  ServiceName :: string
  Price :: "64 word"
  UserID :: string
  StartDate :: string
  EndDate :: string

text \<open>\<^verbatim>\<open>var subscription Subscription\<close>: every field holds its zero value.\<close>

definition zero_Subscription :: Subscription where
  "zero_Subscription =
     \<lparr>ID = [], ServiceName = [], Price = 0, UserID = [], StartDate = [], EndDate = []\<rparr>"

section \<open>Request bodies and \<^verbatim>\<open>c.ShouldBindJSON\<close>\<close>

text \<open>
  A request body is a byte string. The JSON decoder of the standard library either
  rejects it (a syntax error, a value of the wrong JSON type for its field, a number
  that is no 64-bit integer, no body at all), or reads an object. Of an object only six
  keys matter: \<open>ID\<close> (the field's own name, since it has no tag), \<open>service_name\<close>,
  \<open>price\<close>, \<open>user_id\<close>, \<open>start_date\<close> and \<open>end_date\<close>. A key that is missing, or whose
  value is \<open>null\<close>, leaves the target field as it was: that is \<open>None\<close> below.
\<close>

record payload =
  json_ID :: "string option"
  json_service_name :: "string option"
  json_price :: "64 word option"
  json_user_id :: "string option"
  json_start_date :: "string option"
  json_end_date :: "string option"

datatype request_body = Undecodable string | Object payload

text \<open>Decoding writes the keys that are present over the fields of the target struct.\<close>

definition decode_into :: "Subscription \<Rightarrow> payload \<Rightarrow> Subscription" where
  "decode_into s p =
     \<lparr>ID = (case json_ID p of None \<Rightarrow> ID s | Some v \<Rightarrow> v),
      ServiceName = (case json_service_name p of None \<Rightarrow> ServiceName s | Some v \<Rightarrow> v),
      Price = (case json_price p of None \<Rightarrow> Price s | Some v \<Rightarrow> v),
      UserID = (case json_user_id p of None \<Rightarrow> UserID s | Some v \<Rightarrow> v),
      StartDate = (case json_start_date p of None \<Rightarrow> StartDate s | Some v \<Rightarrow> v),
      EndDate = (case json_end_date p of None \<Rightarrow> EndDate s | Some v \<Rightarrow> v)\<rparr>"

text \<open>
  After decoding, the validator walks the struct in field order: a field tagged
  \<open>required\<close> fails when it holds its zero value (the empty string, the integer 0).
  \<open>omitempty\<close> on \<open>EndDate\<close> checks nothing.
\<close>

definition required_failures :: "Subscription \<Rightarrow> string list" where
  "required_failures s =
     (if ServiceName s = [] then [''ServiceName''] else []) @
     (if Price s = 0 then [''Price''] else []) @
     (if UserID s = [] then [''UserID''] else []) @
     (if StartDate s = [] then [''StartDate''] else [])"

definition field_error :: "string \<Rightarrow> string" where
  "field_error f =
     ''Key: '' @ [CHR 0x27] @ ''Subscription.'' @ f @ [CHR 0x27] @
     '' Error:Field validation for '' @ [CHR 0x27] @ f @ [CHR 0x27] @
     '' failed on the '' @ [CHR 0x27] @ ''required'' @ [CHR 0x27] @ '' tag''"

fun join_lines :: "string list \<Rightarrow> string" where
  "join_lines [] = []"
| "join_lines [l] = l"
| "join_lines (l # ls) = l @ [CHR 0x0A] @ join_lines ls"

definition validation_message :: "string list \<Rightarrow> string" where
  "validation_message fs = join_lines (map field_error fs)"

text \<open>
  \<^verbatim>\<open>c.ShouldBindJSON(&subscription)\<close>: decode into the struct the caller passes, then
  validate it. \<open>Inl\<close> carries \<^verbatim>\<open>err.Error()\<close>.
\<close>

definition ShouldBindJSON :: "request_body \<Rightarrow> Subscription \<Rightarrow> string + Subscription" where
  "ShouldBindJSON body s =
     (case body of
        Undecodable msg \<Rightarrow> Inl msg
      | Object p \<Rightarrow>
          (let s' = decode_into s p in
           if required_failures s' = [] then Inr s'
           else Inl (validation_message (required_failures s'))))"

section \<open>The table behind \<^verbatim>\<open>var db *gorm.DB\<close>\<close>

text \<open>
  The handlers share one database handle. Its state is the table \<open>subscriptions\<close>,
  here the list of its rows; the connection is taken to be up, so a statement fails only
  for what it says and what the table holds.
\<close>

type_synonym table = "Subscription list"

datatype db_error =
    ErrRecordNotFound
  | ErrMissingWhereClause
  | UniqueViolation
  | UndefinedColumn string
  | UndefinedFunction string
  | StatementRejected
  | ScanNull

text \<open>
  \<^verbatim>\<open>db.Create(&s)\<close> is one INSERT with every column, \<open>id\<close> included (a string key has
  no default). The primary key refuses a second row with the same \<open>id\<close>.
\<close>

definition Create :: "table \<Rightarrow> Subscription \<Rightarrow> table \<times> db_error option" where
  "Create t s =
     (if ID s \<in> set (map ID t) then (t, Some UniqueViolation) else (t @ [s], None))"

text \<open>\<^verbatim>\<open>db.Find(&subscriptions)\<close>: every row; an empty table gives an empty slice.\<close>

definition Find :: "table \<Rightarrow> Subscription list \<times> db_error option" where
  "Find t = (t, None)"

text \<open>
  \<^verbatim>\<open>db.First(&s, "id = ?", id)\<close>: the first row whose \<open>id\<close> is the bound value, or
  \<open>ErrRecordNotFound\<close>.
\<close>

definition First :: "table \<Rightarrow> string \<Rightarrow> db_error + Subscription" where
  "First t i =
     (case filter (\<lambda>r. ID r = i) t of
        [] \<Rightarrow> Inl ErrRecordNotFound
      | r # _ \<Rightarrow> Inr r)"

text \<open>
  \<^verbatim>\<open>db.Save(&s)\<close>: with a zero primary key it is \<open>Create\<close>. Otherwise it updates every
  other column of the rows whose \<open>id\<close> is \<open>ID s\<close>, and when no row was touched it inserts
  \<open>s\<close>.
\<close>

definition Save :: "table \<Rightarrow> Subscription \<Rightarrow> table \<times> db_error option" where
  "Save t s =
     (if ID s = [] then Create t s
      else if ID s \<in> set (map ID t)
        then (map (\<lambda>r. if ID r = ID s then s else r) t, None)
        else (t @ [s], None))"

text \<open>
  \<^verbatim>\<open>strconv.Atoi\<close>: an optional sign, then one or more decimal digits, the value
  within the 64-bit signed range.
\<close>

definition is_digit :: "char \<Rightarrow> bool" where
  "is_digit c = (48 \<le> (of_char c :: nat) \<and> (of_char c :: nat) \<le> 57)"

definition digits_value :: "string \<Rightarrow> int" where
  "digits_value ds = foldl (\<lambda>n c. n * 10 + (of_char c - 48)) 0 ds"

definition Atoi :: "string \<Rightarrow> int option" where
  "Atoi s =
     (let neg = (s \<noteq> [] \<and> hd s = CHR ''-'');
          ds = (if s \<noteq> [] \<and> (hd s = CHR ''-'' \<or> hd s = CHR ''+'') then tl s else s);
          n = digits_value ds
      in if ds \<noteq> [] \<and> list_all is_digit ds \<and> (if neg then n \<le> 2 ^ 63 else n < 2 ^ 63)
         then Some (if neg then - n else n)
         else None)"

text \<open>
  \<^verbatim>\<open>db.Delete(&Subscription{}, id)\<close> hands the string \<open>id\<close> to GORM as a condition, not
  as a bound value. GORM's \<open>BuildCondition\<close> reads a string that \<open>Atoi\<close> accepts as a
  primary key (\<open>WHERE id = 'id'\<close>), drops an empty one, and takes any other string as
  the text of the WHERE clause itself.
\<close>

datatype condition = NoCondition | PrimaryKey string | Expr string

definition BuildCondition :: "string \<Rightarrow> condition" where
  "BuildCondition s =
     (if Atoi s \<noteq> None then PrimaryKey s
      else if s = [] then NoCondition
      else Expr s)"

text \<open>
  What the database makes of a WHERE text written by the client is outside the
  program: \<open>sql w t\<close> is \<open>None\<close> when the server rejects \<open>DELETE ... WHERE w\<close> on the table
  \<open>t\<close>, and otherwise the rows the clause selects.
\<close>

type_synonym sql_engine = "string \<Rightarrow> table \<Rightarrow> (Subscription \<Rightarrow> bool) option"

text \<open>A DELETE that matches no row is no error: it deletes nothing and succeeds.\<close>

definition Delete :: "sql_engine \<Rightarrow> table \<Rightarrow> string \<Rightarrow> table \<times> db_error option" where
  "Delete sql t i =
     (case BuildCondition i of
        NoCondition \<Rightarrow> (t, Some ErrMissingWhereClause)
      | PrimaryKey k \<Rightarrow> (filter (\<lambda>r. ID r \<noteq> k) t, None)
      | Expr w \<Rightarrow>
          (case sql w t of
             None \<Rightarrow> (t, Some StatementRejected)
           | Some sel \<Rightarrow> (filter (\<lambda>r. \<not> sel r) t, None)))"

text \<open>
  The columns of the table, as GORM names them from the struct's fields. Only \<open>price\<close>
  is numeric (bigint); the others are text.
\<close>

definition columns :: "string list" where
  "columns = [''id'', ''service_name'', ''price'', ''user_id'', ''start_date'', ''end_date'']"

text \<open>
  \<^verbatim>\<open>db.Model(&Subscription{}).Where("user_id = ? AND service_name = ?", u, s).
  Select("SUM(c)").Scan(&total)\<close> with \<^verbatim>\<open>var total float64\<close>. The server rejects a
  column the table does not have, and has no \<open>SUM\<close> over text. \<open>SUM\<close> over no row is
  NULL, which \<open>Scan\<close> cannot store in a \<open>float64\<close>. The sum is kept as the integer it is
  (a \<open>float64\<close> holds it exactly below \<open>2 ^ 53\<close>).
\<close>

definition ScanSum :: "table \<Rightarrow> string \<Rightarrow> string \<Rightarrow> string \<Rightarrow> db_error + int" where
  "ScanSum t c u s =
     (if c \<notin> set columns then Inl (UndefinedColumn c)
      else if c \<noteq> ''price'' then Inl (UndefinedFunction ''sum(text)'')
      else (case filter (\<lambda>r. UserID r = u \<and> ServiceName r = s) t of
              [] \<Rightarrow> Inl ScanNull
            | rs \<Rightarrow> Inr (sum_list (map (\<lambda>r. sint (Price r)) rs))))"

section \<open>The handlers\<close>

text \<open>
  A handler reads the request (path parameter, query parameters, body) and the table,
  and writes one response with \<^verbatim>\<open>c.JSON(status, value)\<close>. The handlers that write to
  the table return the table they leave.
\<close>

datatype json_body =
    JSubscription Subscription
  | JSubscriptions "Subscription list"
  | ErrorResponse string
  | TotalCostResponse int
  | JNil

type_synonym response = "nat \<times> json_body"

definition createSubscription :: "table \<Rightarrow> request_body \<Rightarrow> table \<times> response" where
  "createSubscription t body =
     (case ShouldBindJSON body zero_Subscription of
        Inl err \<Rightarrow> (t, (400, ErrorResponse err))
      | Inr subscription \<Rightarrow>
          (case Create t subscription of
             (t', _) \<Rightarrow> (t', (201, JSubscription subscription))))"

definition getSubscriptions :: "table \<Rightarrow> response" where
  "getSubscriptions t =
     (case Find t of (subscriptions, _) \<Rightarrow> (200, JSubscriptions subscriptions))"

definition getSubscription :: "table \<Rightarrow> string \<Rightarrow> response" where
  "getSubscription t i =
     (case First t i of
        Inl err \<Rightarrow> (404, ErrorResponse ''Subscription not found!'')
      | Inr subscription \<Rightarrow> (200, JSubscription subscription))"

definition updateSubscription :: "table \<Rightarrow> string \<Rightarrow> request_body \<Rightarrow> table \<times> response" where
  "updateSubscription t i body =
     (case First t i of
        Inl err \<Rightarrow> (t, (404, ErrorResponse ''Subscription not found!''))
      | Inr fetched \<Rightarrow>
          (case ShouldBindJSON body fetched of
             Inl err \<Rightarrow> (t, (400, ErrorResponse err))
           | Inr subscription \<Rightarrow>
               (case Save t subscription of
                  (t', _) \<Rightarrow> (t', (200, JSubscription subscription)))))"

definition deleteSubscription :: "sql_engine \<Rightarrow> table \<Rightarrow> string \<Rightarrow> table \<times> response" where
  "deleteSubscription sql t i =
     (case Delete sql t i of
        (t', Some err) \<Rightarrow> (t', (404, ErrorResponse ''Subscription not found!''))
      | (t', None) \<Rightarrow> (t', (204, JNil)))"

definition getTotalCost :: "table \<Rightarrow> string \<Rightarrow> string \<Rightarrow> response" where
  "getTotalCost t userID serviceName =
     (case ScanSum t ''cost'' userID serviceName of
        Inl err \<Rightarrow> (500, ErrorResponse ''Internal server error'')
      | Inr total_cost \<Rightarrow> (200, TotalCostResponse total_cost))"

section \<open>Startup\<close>

text \<open>
  What \<open>main\<close> finds when the process starts: its environment, the file \<open>.env\<close> of the
  working directory (missing, unreadable as a list of assignments, or a map of keys to
  values), and for each connection string whether \<^verbatim>\<open>gorm.Open\<close> reaches a database
  with it and whether \<^verbatim>\<open>AutoMigrate\<close> then succeeds.
\<close>

datatype dotenv = Missing | Unparsable | Parsed "string \<rightharpoonup> string"

record host =
  environ :: "string \<rightharpoonup> string"
  dotenv_file :: dotenv
  opens :: "string \<Rightarrow> bool"
  migrates :: "string \<Rightarrow> bool"

text \<open>
  \<^verbatim>\<open>godotenv.Load()\<close> fails when it cannot read or parse \<open>.env\<close>; otherwise it sets the
  file's keys that the environment does not have yet.
\<close>

definition Load :: "dotenv \<Rightarrow> (string \<rightharpoonup> string) \<Rightarrow> (string \<rightharpoonup> string) option" where
  "Load f env =
     (case f of
        Missing \<Rightarrow> None
      | Unparsable \<Rightarrow> None
      | Parsed m \<Rightarrow> Some (\<lambda>k. case env k of Some v \<Rightarrow> Some v | None \<Rightarrow> m k))"

text \<open>\<^verbatim>\<open>os.Getenv\<close>: the value, or the empty string when the key is not set.\<close>

definition Getenv :: "(string \<rightharpoonup> string) \<Rightarrow> string \<Rightarrow> string" where
  "Getenv env k = (case env k of None \<Rightarrow> [] | Some v \<Rightarrow> v)"

text \<open>
  \<^verbatim>\<open>log.Fatalf\<close> ends the process; \<open>Exit\<close> carries the fixed part of what it logs
  (the library's own error text follows it). \<open>Listening dsn\<close> is \<^verbatim>\<open>r.Run()\<close>
  reached, the handle opened on \<open>dsn\<close>. Neither function loops: each step is tried once.
\<close>

datatype outcome = Exit string | Listening string

definition initDB :: "host \<Rightarrow> (string \<rightharpoonup> string) \<Rightarrow> string + string" where
  "initDB h env =
     (let dsn = Getenv env ''DATABASE_URL'' in
      if \<not> opens h dsn then Inl ''Error connecting to the database''
      else if \<not> migrates h dsn then Inl ''Error migrating database''
      else Inr dsn)"

definition main :: "host \<Rightarrow> outcome" where
  "main h =
     (case Load (dotenv_file h) (environ h) of
        None \<Rightarrow> Exit ''Error loading .env file''
      | Some env \<Rightarrow>
          (case initDB h env of
             Inl msg \<Rightarrow> Exit msg
           | Inr dsn \<Rightarrow> Listening dsn))"

section \<open>Facts about the query layer\<close>

lemma First_Nil: "First [] i = Inl ErrRecordNotFound"
  by (simp add: First_def)

lemma First_Cons: "First (r # t) i = (if ID r = i then Inr r else First t i)"
  by (simp add: First_def)

lemma First_absent: "i \<notin> set (map ID t) \<Longrightarrow> First t i = Inl ErrRecordNotFound"
  by (induction t) (auto simp: First_Nil First_Cons)

lemma First_present:
  "i \<in> set (map ID t) \<Longrightarrow> \<exists>r. First t i = Inr r \<and> r \<in> set t \<and> ID r = i"
  by (induction t) (auto simp: First_Nil First_Cons)

lemma First_Inr: "First t i = Inr r \<Longrightarrow> r \<in> set t \<and> ID r = i"
  by (induction t) (auto simp: First_Nil First_Cons split: if_splits)

lemma First_append:
  "First (t @ u) i = (case First t i of Inl e \<Rightarrow> First u i | Inr r \<Rightarrow> Inr r)"
  by (induction t) (auto simp: First_Nil First_Cons)

lemma First_map_same:
  "ID s \<in> set (map ID t) \<Longrightarrow>
   First (map (\<lambda>r. if ID r = ID s then s else r) t) (ID s) = Inr s"
  by (induction t) (auto simp: First_Nil First_Cons)

lemma First_map_other:
  "i \<noteq> ID s \<Longrightarrow> First (map (\<lambda>r. if ID r = ID s then s else r) t) i = First t i"
  by (induction t) (auto simp: First_Nil First_Cons)

lemma Atoi_42: "Atoi ''42'' = Some 42"
  by (simp add: Atoi_def is_digit_def digits_value_def)

lemma Atoi_abc: "Atoi ''abc'' = None"
  by (simp add: Atoi_def is_digit_def digits_value_def)

lemma required_failures_Nil_iff:
  "required_failures s = [] \<longleftrightarrow>
     ServiceName s \<noteq> [] \<and> Price s \<noteq> 0 \<and> UserID s \<noteq> [] \<and> StartDate s \<noteq> []"
  by (simp add: required_failures_def)

lemma field_error_not_Nil: "field_error f \<noteq> []"
  by (simp add: field_error_def)

lemma join_lines_not_Nil: "ls \<noteq> [] \<Longrightarrow> hd ls \<noteq> [] \<Longrightarrow> join_lines ls \<noteq> []"
  by (induction ls rule: join_lines.induct) auto

lemma validation_message_not_Nil: "fs \<noteq> [] \<Longrightarrow> validation_message fs \<noteq> []"
  unfolding validation_message_def
  by (rule join_lines_not_Nil) (auto simp: field_error_not_Nil hd_map)

section \<open>Total cost\<close>

text \<open>
  The query sums a column named \<open>cost\<close>. The table has no such column, so the statement
  fails whatever the table holds and whatever is asked.
\<close>

lemma getTotalCost_always_500:
  "getTotalCost t u s = (500, ErrorResponse ''Internal server error'')"
  by (simp add: getTotalCost_def ScanSum_def columns_def)

text \<open>
  The same query over the column \<open>price\<close> does compute the sum of the matching rows, and
  fails on NULL when no row matches.
\<close>

lemma ScanSum_price_matching:
  "filter (\<lambda>r. UserID r = u \<and> ServiceName r = s) t \<noteq> [] \<Longrightarrow>
   ScanSum t ''price'' u s =
     Inr (sum_list (map (\<lambda>r. sint (Price r))
            (filter (\<lambda>r. UserID r = u \<and> ServiceName r = s) t)))"
  by (simp add: ScanSum_def columns_def split: list.splits)

lemma ScanSum_price_no_match:
  "filter (\<lambda>r. UserID r = u \<and> ServiceName r = s) t = [] \<Longrightarrow>
   ScanSum t ''price'' u s = Inl ScanNull"
  by (simp add: ScanSum_def columns_def)

lemma ScanSum_price_example:
  "ScanSum
     [\<lparr>ID = ''a'', ServiceName = ''Netflix'', Price = 15, UserID = ''u1'',
        StartDate = ''2024-01-01'', EndDate = []\<rparr>,
      \<lparr>ID = ''b'', ServiceName = ''Netflix'', Price = 15, UserID = ''u1'',
        StartDate = ''2024-02-01'', EndDate = []\<rparr>]
     ''price'' ''u1'' ''Netflix'' = Inr 30"
  by (simp add: ScanSum_def columns_def)

text \<open>
  C1. The claim: the total cost returned for \<open>user_id\<close> and \<open>service_name\<close> is the sum of
  \<open>price\<close> over the records matching both, 0 when none matches, and 500 only when the
  query fails. On the two Netflix records of user \<open>u1\<close>, priced 15 each, the handler
  answers 500 and not a total of 30.
\<close>

theorem getTotalCost_example_500:
  "getTotalCost
     [\<lparr>ID = ''a'', ServiceName = ''Netflix'', Price = 15, UserID = ''u1'',
        StartDate = ''2024-01-01'', EndDate = []\<rparr>,
      \<lparr>ID = ''b'', ServiceName = ''Netflix'', Price = 15, UserID = ''u1'',
        StartDate = ''2024-02-01'', EndDate = []\<rparr>]
     ''u1'' ''Netflix'' = (500, ErrorResponse ''Internal server error'')"
  by (simp add: getTotalCost_def ScanSum_def columns_def)

section \<open>Delete\<close>

lemma deleteSubscription_numeric_id:
  "Atoi i \<noteq> None \<Longrightarrow>
   deleteSubscription sql t i = (filter (\<lambda>r. ID r \<noteq> i) t, (204, JNil))"
  by (simp add: deleteSubscription_def Delete_def BuildCondition_def)

lemma deleteSubscription_rejected_text:
  "Atoi i = None \<Longrightarrow> i \<noteq> [] \<Longrightarrow> sql i t = None \<Longrightarrow>
   deleteSubscription sql t i = (t, (404, ErrorResponse ''Subscription not found!''))"
  by (simp add: deleteSubscription_def Delete_def BuildCondition_def)

lemma deleteSubscription_accepted_text:
  "Atoi i = None \<Longrightarrow> i \<noteq> [] \<Longrightarrow> sql i t = Some sel \<Longrightarrow>
   deleteSubscription sql t i = (filter (\<lambda>r. \<not> sel r) t, (204, JNil))"
  by (simp add: deleteSubscription_def Delete_def BuildCondition_def)

text \<open>
  An id that is no decimal integer is sent as the WHERE clause itself. A server that
  rejects the clause \<open>abc\<close> leaves the record \<open>abc\<close> in place, and the handler answers 404.
\<close>

lemma deleteSubscription_word_id_kept:
  "deleteSubscription (\<lambda>w t. None)
     [\<lparr>ID = ''abc'', ServiceName = ''Netflix'', Price = 15, UserID = ''u1'',
        StartDate = ''2024-01-01'', EndDate = []\<rparr>] ''abc'' =
   ([\<lparr>ID = ''abc'', ServiceName = ''Netflix'', Price = 15, UserID = ''u1'',
        StartDate = ''2024-01-01'', EndDate = []\<rparr>],
    (404, ErrorResponse ''Subscription not found!''))"
  by (simp add: deleteSubscription_def Delete_def BuildCondition_def Atoi_abc)

text \<open>
  C2. The claim: delete removes the record with the given id and returns 204 when it
  exists, and returns 404 when no record has that id. On the empty table, deleting the
  id \<open>42\<close> returns 204.
\<close>

theorem deleteSubscription_absent_id_204:
  "deleteSubscription (\<lambda>w t. None) [] ''42'' = ([], (204, JNil))"
  by (simp add: deleteSubscription_def Delete_def BuildCondition_def Atoi_42)

section \<open>List\<close>

text \<open>
  C6. The list operation takes no input, always answers 200, and returns every stored
  record as a sequence, the empty sequence when the table is empty.
\<close>

theorem getSubscriptions_all_rows:
  "getSubscriptions t = (200, JSubscriptions t) \<and>
   getSubscriptions [] = (200, JSubscriptions [])"
  by (simp add: getSubscriptions_def Find_def)

section \<open>Create\<close>

text \<open>
  C5. A create request whose body omits a required field (\<open>service_name\<close>, \<open>price\<close>,
  \<open>user_id\<close>, \<open>start_date\<close>) or leaves it empty is answered 400 with the validator's
  message, which is not empty, and the table is left as it was.
\<close>

theorem createSubscription_required_missing:
  assumes "json_service_name p = None \<or> json_service_name p = Some []
         \<or> json_price p = None \<or> json_price p = Some 0
         \<or> json_user_id p = None \<or> json_user_id p = Some []
         \<or> json_start_date p = None \<or> json_start_date p = Some []"
  shows "createSubscription t (Object p) =
           (t, (400, ErrorResponse
                  (validation_message (required_failures (decode_into zero_Subscription p)))))
         \<and> required_failures (decode_into zero_Subscription p) \<noteq> []
         \<and> validation_message (required_failures (decode_into zero_Subscription p)) \<noteq> []"
proof -
  have bad: "required_failures (decode_into zero_Subscription p) \<noteq> []"
    using assms
    by (auto simp: required_failures_Nil_iff decode_into_def zero_Subscription_def)
  then show ?thesis
    by (simp add: createSubscription_def ShouldBindJSON_def validation_message_not_Nil)
qed

theorem createSubscription_required_missing_witness:
  "json_price \<lparr>json_ID = None, json_service_name = Some ''Netflix'', json_price = None,
       json_user_id = Some ''u1'', json_start_date = Some ''2024-01-01'',
       json_end_date = None\<rparr> = None
   \<and> createSubscription []
       (Object \<lparr>json_ID = None, json_service_name = Some ''Netflix'', json_price = None,
          json_user_id = Some ''u1'', json_start_date = Some ''2024-01-01'',
          json_end_date = None\<rparr>) =
     ([], (400, ErrorResponse (field_error ''Price'')))"
proof -
  have missing: "json_price \<lparr>json_ID = None, json_service_name = Some ''Netflix'',
       json_price = None, json_user_id = Some ''u1'', json_start_date = Some ''2024-01-01'',
       json_end_date = None\<rparr> = None"
    by simp
  then show ?thesis
    using createSubscription_required_missing
      [of "\<lparr>json_ID = None, json_service_name = Some ''Netflix'', json_price = None,
          json_user_id = Some ''u1'', json_start_date = Some ''2024-01-01'',
          json_end_date = None\<rparr>" "[]"]
    by (simp add: required_failures_def decode_into_def zero_Subscription_def
        validation_message_def)
qed

lemma ShouldBindJSON_Object:
  "ShouldBindJSON (Object p) s =
     (if required_failures (decode_into s p) = [] then Inr (decode_into s p)
      else Inl (validation_message (required_failures (decode_into s p))))"
  by (simp add: ShouldBindJSON_def)

lemma ShouldBindJSON_Undecodable: "ShouldBindJSON (Undecodable msg) s = Inl msg"
  by (simp add: ShouldBindJSON_def)

text \<open>
  A price of 0 is the zero value: the validator reads it as missing.
\<close>

lemma createSubscription_zero_price_400:
  "createSubscription []
     (Object \<lparr>json_ID = Some ''1'', json_service_name = Some ''Trial'', json_price = Some 0,
        json_user_id = Some ''u1'', json_start_date = Some ''2024-01-01'',
        json_end_date = None\<rparr>) =
   ([], (400, ErrorResponse (field_error ''Price'')))"
  by (simp add: createSubscription_def ShouldBindJSON_def required_failures_def
      decode_into_def zero_Subscription_def validation_message_def)

text \<open>
  C4. The claim: a create request whose body has all required fields persists the
  record and returns 201 with a body equal to the payload. With the id of a stored
  record the answer is 201 and the record is not in the table.
\<close>

theorem createSubscription_duplicate_id_not_stored:
  "createSubscription
     [\<lparr>ID = ''7'', ServiceName = ''Netflix'', Price = 15, UserID = ''u1'',
        StartDate = ''2024-01-01'', EndDate = []\<rparr>]
     (Object \<lparr>json_ID = Some ''7'', json_service_name = Some ''Spotify'',
        json_price = Some 10, json_user_id = Some ''u3'',
        json_start_date = Some ''2024-05-01'', json_end_date = None\<rparr>) =
   ([\<lparr>ID = ''7'', ServiceName = ''Netflix'', Price = 15, UserID = ''u1'',
        StartDate = ''2024-01-01'', EndDate = []\<rparr>],
    (201, JSubscription \<lparr>ID = ''7'', ServiceName = ''Spotify'', Price = 10, UserID = ''u3'',
        StartDate = ''2024-05-01'', EndDate = []\<rparr>))
   \<and> \<lparr>ID = ''7'', ServiceName = ''Spotify'', Price = 10, UserID = ''u3'',
        StartDate = ''2024-05-01'', EndDate = []\<rparr> \<notin>
     set (fst (createSubscription
       [\<lparr>ID = ''7'', ServiceName = ''Netflix'', Price = 15, UserID = ''u1'',
          StartDate = ''2024-01-01'', EndDate = []\<rparr>]
       (Object \<lparr>json_ID = Some ''7'', json_service_name = Some ''Spotify'',
          json_price = Some 10, json_user_id = Some ''u3'',
          json_start_date = Some ''2024-05-01'', json_end_date = None\<rparr>)))"
  by (simp add: createSubscription_def ShouldBindJSON_def required_failures_def
      decode_into_def zero_Subscription_def Create_def)

text \<open>
  C4, amended. A create request whose body has \<open>service_name\<close>, \<open>user_id\<close> and
  \<open>start_date\<close> non-empty and \<open>price\<close> non-zero, and whose id (the empty string when the
  body has none) is the id of no stored record, appends the record to the table and
  returns 201 with a body whose fields are the payload's, \<open>end_date\<close> empty when absent.
\<close>

theorem createSubscription_fresh_id:
  assumes "json_service_name p = Some sn" and "sn \<noteq> []"
      and "json_price p = Some pr" and "pr \<noteq> 0"
      and "json_user_id p = Some u" and "u \<noteq> []"
      and "json_start_date p = Some sd" and "sd \<noteq> []"
      and "(case json_ID p of None \<Rightarrow> [] | Some v \<Rightarrow> v) \<notin> set (map ID t)"
  shows "createSubscription t (Object p) =
           (t @ [\<lparr>ID = (case json_ID p of None \<Rightarrow> [] | Some v \<Rightarrow> v),
                   ServiceName = sn, Price = pr, UserID = u, StartDate = sd,
                   EndDate = (case json_end_date p of None \<Rightarrow> [] | Some v \<Rightarrow> v)\<rparr>],
            (201, JSubscription
                   \<lparr>ID = (case json_ID p of None \<Rightarrow> [] | Some v \<Rightarrow> v),
                    ServiceName = sn, Price = pr, UserID = u, StartDate = sd,
                    EndDate = (case json_end_date p of None \<Rightarrow> [] | Some v \<Rightarrow> v)\<rparr>))"
proof -
  have dec: "decode_into zero_Subscription p =
      \<lparr>ID = (case json_ID p of None \<Rightarrow> [] | Some v \<Rightarrow> v),
       ServiceName = sn, Price = pr, UserID = u, StartDate = sd,
       EndDate = (case json_end_date p of None \<Rightarrow> [] | Some v \<Rightarrow> v)\<rparr>"
    using assms by (simp add: decode_into_def zero_Subscription_def split: option.splits)
  have ok: "required_failures (decode_into zero_Subscription p) = []"
    using assms by (simp add: dec required_failures_def)
  show ?thesis
    using assms(9) ok
    by (simp add: createSubscription_def ShouldBindJSON_Object Create_def dec)
qed

theorem createSubscription_fresh_id_witness:
  "createSubscription []
     (Object \<lparr>json_ID = None, json_service_name = Some ''Netflix'', json_price = Some 15,
        json_user_id = Some ''u1'', json_start_date = Some ''2024-01-01'',
        json_end_date = None\<rparr>) =
   ([\<lparr>ID = [], ServiceName = ''Netflix'', Price = 15, UserID = ''u1'',
        StartDate = ''2024-01-01'', EndDate = []\<rparr>],
    (201, JSubscription \<lparr>ID = [], ServiceName = ''Netflix'', Price = 15, UserID = ''u1'',
        StartDate = ''2024-01-01'', EndDate = []\<rparr>))"
  using createSubscription_fresh_id
    [of "\<lparr>json_ID = None, json_service_name = Some ''Netflix'', json_price = Some 15,
        json_user_id = Some ''u1'', json_start_date = Some ''2024-01-01'',
        json_end_date = None\<rparr>" "''Netflix''" 15 "''u1''" "''2024-01-01''" "[]"]
  by simp

text \<open>
  C9. When the body passes binding, create answers 201 with the bound record whatever
  the insert returns: the table is the one \<open>Create\<close> leaves and its error is dropped. So
  every answer of create is 201 with a record or 400 with a message.
\<close>

theorem createSubscription_ignores_insert_error:
  "(ShouldBindJSON body zero_Subscription = Inr s \<longrightarrow>
      createSubscription t body = (fst (Create t s), (201, JSubscription s)))
   \<and> ((\<exists>s'. snd (createSubscription t body) = (201, JSubscription s'))
        \<or> (\<exists>msg. snd (createSubscription t body) = (400, ErrorResponse msg)))"
  by (cases "ShouldBindJSON body zero_Subscription")
     (auto simp: createSubscription_def split: prod.splits)

theorem createSubscription_ignores_insert_error_witness:
  "ShouldBindJSON
     (Object \<lparr>json_ID = Some ''1'', json_service_name = Some ''Hulu'', json_price = Some 8,
        json_user_id = Some ''u2'', json_start_date = Some ''2024-03-01'',
        json_end_date = None\<rparr>) zero_Subscription =
     Inr \<lparr>ID = ''1'', ServiceName = ''Hulu'', Price = 8, UserID = ''u2'',
        StartDate = ''2024-03-01'', EndDate = []\<rparr>
   \<and> snd (Create
       [\<lparr>ID = ''1'', ServiceName = ''Netflix'', Price = 15, UserID = ''u1'',
          StartDate = ''2024-01-01'', EndDate = []\<rparr>]
       \<lparr>ID = ''1'', ServiceName = ''Hulu'', Price = 8, UserID = ''u2'',
          StartDate = ''2024-03-01'', EndDate = []\<rparr>) = Some UniqueViolation
   \<and> createSubscription
       [\<lparr>ID = ''1'', ServiceName = ''Netflix'', Price = 15, UserID = ''u1'',
          StartDate = ''2024-01-01'', EndDate = []\<rparr>]
       (Object \<lparr>json_ID = Some ''1'', json_service_name = Some ''Hulu'', json_price = Some 8,
          json_user_id = Some ''u2'', json_start_date = Some ''2024-03-01'',
          json_end_date = None\<rparr>) =
     ([\<lparr>ID = ''1'', ServiceName = ''Netflix'', Price = 15, UserID = ''u1'',
          StartDate = ''2024-01-01'', EndDate = []\<rparr>],
      (201, JSubscription \<lparr>ID = ''1'', ServiceName = ''Hulu'', Price = 8, UserID = ''u2'',
          StartDate = ''2024-03-01'', EndDate = []\<rparr>))"
proof -
  have bind: "ShouldBindJSON
     (Object \<lparr>json_ID = Some ''1'', json_service_name = Some ''Hulu'', json_price = Some 8,
        json_user_id = Some ''u2'', json_start_date = Some ''2024-03-01'',
        json_end_date = None\<rparr>) zero_Subscription =
     Inr \<lparr>ID = ''1'', ServiceName = ''Hulu'', Price = 8, UserID = ''u2'',
        StartDate = ''2024-03-01'', EndDate = []\<rparr>"
    by (simp add: ShouldBindJSON_def required_failures_def decode_into_def
        zero_Subscription_def)
  have dup: "Create
       [\<lparr>ID = ''1'', ServiceName = ''Netflix'', Price = 15, UserID = ''u1'',
          StartDate = ''2024-01-01'', EndDate = []\<rparr>]
       \<lparr>ID = ''1'', ServiceName = ''Hulu'', Price = 8, UserID = ''u2'',
          StartDate = ''2024-03-01'', EndDate = []\<rparr> =
     ([\<lparr>ID = ''1'', ServiceName = ''Netflix'', Price = 15, UserID = ''u1'',
          StartDate = ''2024-01-01'', EndDate = []\<rparr>], Some UniqueViolation)"
    by (simp add: Create_def)
  from createSubscription_ignores_insert_error
    [THEN conjunct1, THEN mp, OF bind,
      of "[\<lparr>ID = ''1'', ServiceName = ''Netflix'', Price = 15, UserID = ''u1'',
          StartDate = ''2024-01-01'', EndDate = []\<rparr>]"]
  show ?thesis
    using bind dup by simp
qed

section \<open>Update\<close>

lemma map_ID_replace: "map ID (map (\<lambda>r. if ID r = ID s then s else r) t) = map ID t"
  by (induction t) auto

lemma filter_replace_other:
  "filter (\<lambda>r. ID r \<noteq> ID s) (map (\<lambda>r. if ID r = ID s then s else r) t) =
   filter (\<lambda>r. ID r \<noteq> ID s) t"
  by (induction t) auto

lemma First_snoc_other: "i \<noteq> ID s \<Longrightarrow> First (t @ [s]) i = First t i"
  by (induction t) (auto simp: First_Nil First_Cons)

lemma Save_First_same:
  "ID s \<noteq> [] \<or> [] \<notin> set (map ID t) \<Longrightarrow> First (fst (Save t s)) (ID s) = Inr s"
  by (auto simp: Save_def Create_def First_map_same First_append First_absent First_Cons
      First_Nil)

lemma Save_shape:
  "ID s \<noteq> [] \<or> [] \<notin> set (map ID t) \<Longrightarrow>
   (if ID s \<in> set (map ID t) then map ID (fst (Save t s)) = map ID t
    else fst (Save t s) = t @ [s])"
  using map_ID_replace [of s t] by (auto simp: Save_def Create_def)

lemma decode_into_fields:
  "decode_into old p =
     \<lparr>ID = (case json_ID p of None \<Rightarrow> ID old | Some v \<Rightarrow> v),
      ServiceName = (case json_service_name p of None \<Rightarrow> ServiceName old | Some v \<Rightarrow> v),
      Price = (case json_price p of None \<Rightarrow> Price old | Some v \<Rightarrow> v),
      UserID = (case json_user_id p of None \<Rightarrow> UserID old | Some v \<Rightarrow> v),
      StartDate = (case json_start_date p of None \<Rightarrow> StartDate old | Some v \<Rightarrow> v),
      EndDate = (case json_end_date p of None \<Rightarrow> EndDate old | Some v \<Rightarrow> v)\<rparr>"
  by (simp add: decode_into_def)

lemma Save_First_other:
  assumes "i \<noteq> ID s"
  shows "First (fst (Save t s)) i = First t i"
  using First_snoc_other [OF assms, of t] First_map_other [OF assms, of t]
  by (simp add: Save_def Create_def)

lemma Save_filter_other:
  "filter (\<lambda>r. ID r \<noteq> ID s) (fst (Save t s)) = filter (\<lambda>r. ID r \<noteq> ID s) t"
  by (simp add: Save_def Create_def filter_replace_other)

lemma updateSubscription_absent:
  "i \<notin> set (map ID t) \<Longrightarrow>
   updateSubscription t i body = (t, (404, ErrorResponse ''Subscription not found!''))"
  by (simp add: updateSubscription_def First_absent)

lemma updateSubscription_saved:
  "First t i = Inr old \<Longrightarrow> required_failures (decode_into old p) = [] \<Longrightarrow>
   updateSubscription t i (Object p) =
     (fst (Save t (decode_into old p)), (200, JSubscription (decode_into old p)))"
  by (simp add: updateSubscription_def ShouldBindJSON_Object split: prod.splits)

lemma updateSubscription_bound:
  "First t i = Inr old \<Longrightarrow> ShouldBindJSON body old = Inr s \<Longrightarrow>
   updateSubscription t i body = (fst (Save t s), (200, JSubscription s))"
  by (simp add: updateSubscription_def split: prod.splits)

lemma updateSubscription_refused:
  "First t i = Inr old \<Longrightarrow> ShouldBindJSON body old = Inl msg \<Longrightarrow>
   updateSubscription t i body = (t, (400, ErrorResponse msg))"
  by (simp add: updateSubscription_def)

text \<open>
  C3. The claim: update answers 404 when no record has the id; otherwise it writes the
  body's fields over the fetched record, validates as create does (400 on failure),
  persists the result and returns 200 with the updated record, whose stored values are
  the new ones. A body that sets \<open>ID\<close> to the empty string turns the save into an
  insert; with a record of empty id in the table the insert fails, the answer is 200,
  and the returned record is nowhere in the table.
\<close>

theorem updateSubscription_empty_id_not_stored:
  "updateSubscription
     [\<lparr>ID = [], ServiceName = ''Hulu'', Price = 8, UserID = ''u2'',
        StartDate = ''2024-03-01'', EndDate = []\<rparr>,
      \<lparr>ID = ''1'', ServiceName = ''Netflix'', Price = 15, UserID = ''u1'',
        StartDate = ''2024-01-01'', EndDate = []\<rparr>] ''1''
     (Object \<lparr>json_ID = Some [], json_service_name = Some ''Disney'', json_price = None,
        json_user_id = None, json_start_date = None, json_end_date = None\<rparr>) =
   ([\<lparr>ID = [], ServiceName = ''Hulu'', Price = 8, UserID = ''u2'',
        StartDate = ''2024-03-01'', EndDate = []\<rparr>,
     \<lparr>ID = ''1'', ServiceName = ''Netflix'', Price = 15, UserID = ''u1'',
        StartDate = ''2024-01-01'', EndDate = []\<rparr>],
    (200, JSubscription \<lparr>ID = [], ServiceName = ''Disney'', Price = 15, UserID = ''u1'',
        StartDate = ''2024-01-01'', EndDate = []\<rparr>))
   \<and> \<lparr>ID = [], ServiceName = ''Disney'', Price = 15, UserID = ''u1'',
        StartDate = ''2024-01-01'', EndDate = []\<rparr> \<notin>
     set (fst (updateSubscription
       [\<lparr>ID = [], ServiceName = ''Hulu'', Price = 8, UserID = ''u2'',
        StartDate = ''2024-03-01'', EndDate = []\<rparr>,
        \<lparr>ID = ''1'', ServiceName = ''Netflix'', Price = 15, UserID = ''u1'',
        StartDate = ''2024-01-01'', EndDate = []\<rparr>] ''1''
       (Object \<lparr>json_ID = Some [], json_service_name = Some ''Disney'', json_price = None,
        json_user_id = None, json_start_date = None, json_end_date = None\<rparr>)))"
  by (simp add: updateSubscription_def First_def ShouldBindJSON_def required_failures_def
      decode_into_def Save_def Create_def)

text \<open>
  C3, amended. Update answers 404 and leaves the table when no record has the id.
  Otherwise a record \<open>old\<close> with that id is fetched, and each field of the merged record
  is the body's value where the body has the key and \<open>old\<close>'s value where it has not. A
  body the decoder rejects, or one whose merged record has a required field empty or
  zero (the check create applies), is answered 400 with the message, the table left as
  it was. When the merged record passes the check, and its id is not the empty string
  or no stored record has the empty id, update answers 200 with the merged record, and
  the record then stored under the merged record's id is the merged record.
\<close>

theorem updateSubscription_contract:
  "(i \<notin> set (map ID t) \<longrightarrow>
      updateSubscription t i body = (t, (404, ErrorResponse ''Subscription not found!'')))
   \<and> (i \<in> set (map ID t) \<longrightarrow> (\<exists>r. First t i = Inr r \<and> r \<in> set t \<and> ID r = i))
   \<and> (First t i = Inr old \<longrightarrow>
        updateSubscription t i (Undecodable msg) = (t, (400, ErrorResponse msg)))
   \<and> decode_into old p =
         \<lparr>ID = (case json_ID p of None \<Rightarrow> ID old | Some v \<Rightarrow> v),
           ServiceName = (case json_service_name p of None \<Rightarrow> ServiceName old | Some v \<Rightarrow> v),
           Price = (case json_price p of None \<Rightarrow> Price old | Some v \<Rightarrow> v),
           UserID = (case json_user_id p of None \<Rightarrow> UserID old | Some v \<Rightarrow> v),
           StartDate = (case json_start_date p of None \<Rightarrow> StartDate old | Some v \<Rightarrow> v),
           EndDate = (case json_end_date p of None \<Rightarrow> EndDate old | Some v \<Rightarrow> v)\<rparr>
   \<and> (First t i = Inr old \<and> required_failures (decode_into old p) \<noteq> [] \<longrightarrow>
        updateSubscription t i (Object p) =
          (t, (400, ErrorResponse (validation_message (required_failures (decode_into old p))))))
   \<and> (First t i = Inr old \<and> required_failures (decode_into old p) = []
        \<and> (ID (decode_into old p) \<noteq> [] \<or> [] \<notin> set (map ID t)) \<longrightarrow>
        snd (updateSubscription t i (Object p)) = (200, JSubscription (decode_into old p))
        \<and> First (fst (updateSubscription t i (Object p))) (ID (decode_into old p)) =
             Inr (decode_into old p))"
proof (intro conjI impI)
  assume "i \<notin> set (map ID t)"
  then show "updateSubscription t i body = (t, (404, ErrorResponse ''Subscription not found!''))"
    by (rule updateSubscription_absent)
next
  assume "i \<in> set (map ID t)"
  then show "\<exists>r. First t i = Inr r \<and> r \<in> set t \<and> ID r = i"
    by (rule First_present)
next
  assume "First t i = Inr old"
  then show "updateSubscription t i (Undecodable msg) = (t, (400, ErrorResponse msg))"
    by (simp add: updateSubscription_def ShouldBindJSON_Undecodable)
next
  show "decode_into old p =
         \<lparr>ID = (case json_ID p of None \<Rightarrow> ID old | Some v \<Rightarrow> v),
           ServiceName = (case json_service_name p of None \<Rightarrow> ServiceName old | Some v \<Rightarrow> v),
           Price = (case json_price p of None \<Rightarrow> Price old | Some v \<Rightarrow> v),
           UserID = (case json_user_id p of None \<Rightarrow> UserID old | Some v \<Rightarrow> v),
           StartDate = (case json_start_date p of None \<Rightarrow> StartDate old | Some v \<Rightarrow> v),
           EndDate = (case json_end_date p of None \<Rightarrow> EndDate old | Some v \<Rightarrow> v)\<rparr>"
    by (rule decode_into_fields)
next
  assume "First t i = Inr old \<and> required_failures (decode_into old p) \<noteq> []"
  then show "updateSubscription t i (Object p) =
      (t, (400, ErrorResponse (validation_message (required_failures (decode_into old p)))))"
    by (simp add: updateSubscription_def ShouldBindJSON_Object)
next
  assume a: "First t i = Inr old \<and> required_failures (decode_into old p) = []
        \<and> (ID (decode_into old p) \<noteq> [] \<or> [] \<notin> set (map ID t))"
  then show "snd (updateSubscription t i (Object p)) = (200, JSubscription (decode_into old p))"
    by (simp add: updateSubscription_saved)
  from a have "First (fst (Save t (decode_into old p))) (ID (decode_into old p)) =
      Inr (decode_into old p)"
    by (intro Save_First_same) simp
  with a show "First (fst (updateSubscription t i (Object p))) (ID (decode_into old p)) =
      Inr (decode_into old p)"
    by (simp add: updateSubscription_saved)
qed

theorem updateSubscription_contract_witness:
  "updateSubscription [\<lparr>ID = ''1'', ServiceName = ''Netflix'', Price = 15, UserID = ''u1'',
        StartDate = ''2024-01-01'', EndDate = []\<rparr>] ''2''
     (Object \<lparr>json_ID = None, json_service_name = None, json_price = Some 20,
        json_user_id = None, json_start_date = None, json_end_date = None\<rparr>) =
   ([\<lparr>ID = ''1'', ServiceName = ''Netflix'', Price = 15, UserID = ''u1'',
        StartDate = ''2024-01-01'', EndDate = []\<rparr>], (404, ErrorResponse ''Subscription not found!''))
   \<and> updateSubscription [\<lparr>ID = ''1'', ServiceName = ''Netflix'', Price = 15, UserID = ''u1'',
        StartDate = ''2024-01-01'', EndDate = []\<rparr>] ''1'' (Undecodable ''unexpected EOF'') =
   ([\<lparr>ID = ''1'', ServiceName = ''Netflix'', Price = 15, UserID = ''u1'',
        StartDate = ''2024-01-01'', EndDate = []\<rparr>], (400, ErrorResponse ''unexpected EOF''))
   \<and> updateSubscription [\<lparr>ID = ''1'', ServiceName = ''Netflix'', Price = 15, UserID = ''u1'',
        StartDate = ''2024-01-01'', EndDate = []\<rparr>] ''1''
     (Object \<lparr>json_ID = None, json_service_name = None, json_price = Some 0,
        json_user_id = None, json_start_date = None, json_end_date = None\<rparr>) =
   ([\<lparr>ID = ''1'', ServiceName = ''Netflix'', Price = 15, UserID = ''u1'',
        StartDate = ''2024-01-01'', EndDate = []\<rparr>], (400, ErrorResponse (field_error ''Price'')))
   \<and> snd (updateSubscription [\<lparr>ID = ''1'', ServiceName = ''Netflix'', Price = 15, UserID = ''u1'',
        StartDate = ''2024-01-01'', EndDate = []\<rparr>] ''1''
     (Object \<lparr>json_ID = None, json_service_name = None, json_price = Some 20,
        json_user_id = None, json_start_date = None, json_end_date = None\<rparr>)) =
   (200, JSubscription \<lparr>ID = ''1'', ServiceName = ''Netflix'', Price = 20, UserID = ''u1'',
        StartDate = ''2024-01-01'', EndDate = []\<rparr>)
   \<and> First (fst (updateSubscription [\<lparr>ID = ''1'', ServiceName = ''Netflix'', Price = 15, UserID = ''u1'',
        StartDate = ''2024-01-01'', EndDate = []\<rparr>] ''1''
     (Object \<lparr>json_ID = None, json_service_name = None, json_price = Some 20,
        json_user_id = None, json_start_date = None, json_end_date = None\<rparr>))) ''1'' =
   Inr \<lparr>ID = ''1'', ServiceName = ''Netflix'', Price = 20, UserID = ''u1'',
        StartDate = ''2024-01-01'', EndDate = []\<rparr>
   \<and> snd (updateSubscription [\<lparr>ID = ''1'', ServiceName = ''Netflix'', Price = 15, UserID = ''u1'',
        StartDate = ''2024-01-01'', EndDate = []\<rparr>] ''1''
     (Object \<lparr>json_ID = Some [], json_service_name = Some ''Disney'', json_price = None,
        json_user_id = None, json_start_date = None, json_end_date = None\<rparr>)) =
   (200, JSubscription \<lparr>ID = [], ServiceName = ''Disney'', Price = 15, UserID = ''u1'',
        StartDate = ''2024-01-01'', EndDate = []\<rparr>)
   \<and> First (fst (updateSubscription [\<lparr>ID = ''1'', ServiceName = ''Netflix'', Price = 15, UserID = ''u1'',
        StartDate = ''2024-01-01'', EndDate = []\<rparr>] ''1''
     (Object \<lparr>json_ID = Some [], json_service_name = Some ''Disney'', json_price = None,
        json_user_id = None, json_start_date = None, json_end_date = None\<rparr>))) [] =
   Inr \<lparr>ID = [], ServiceName = ''Disney'', Price = 15, UserID = ''u1'',
        StartDate = ''2024-01-01'', EndDate = []\<rparr>"
  using
    updateSubscription_contract
      [where t = "[\<lparr>ID = ''1'', ServiceName = ''Netflix'', Price = 15, UserID = ''u1'',
        StartDate = ''2024-01-01'', EndDate = []\<rparr>]" and i = "''2''"
         and body = "Object \<lparr>json_ID = None, json_service_name = None, json_price = Some 20,
        json_user_id = None, json_start_date = None, json_end_date = None\<rparr>"
         and old = "\<lparr>ID = ''1'', ServiceName = ''Netflix'', Price = 15, UserID = ''u1'',
        StartDate = ''2024-01-01'', EndDate = []\<rparr>"
         and msg = "''unexpected EOF''"
         and p = "\<lparr>json_ID = None, json_service_name = None, json_price = Some 0,
        json_user_id = None, json_start_date = None, json_end_date = None\<rparr>"]
    updateSubscription_contract
      [where t = "[\<lparr>ID = ''1'', ServiceName = ''Netflix'', Price = 15, UserID = ''u1'',
        StartDate = ''2024-01-01'', EndDate = []\<rparr>]" and i = "''1''"
         and body = "Object \<lparr>json_ID = None, json_service_name = None, json_price = Some 20,
        json_user_id = None, json_start_date = None, json_end_date = None\<rparr>"
         and old = "\<lparr>ID = ''1'', ServiceName = ''Netflix'', Price = 15, UserID = ''u1'',
        StartDate = ''2024-01-01'', EndDate = []\<rparr>"
         and msg = "''unexpected EOF''"
         and p = "\<lparr>json_ID = None, json_service_name = None, json_price = Some 0,
        json_user_id = None, json_start_date = None, json_end_date = None\<rparr>"]
    updateSubscription_contract
      [where t = "[\<lparr>ID = ''1'', ServiceName = ''Netflix'', Price = 15, UserID = ''u1'',
        StartDate = ''2024-01-01'', EndDate = []\<rparr>]" and i = "''1''"
         and body = "Object \<lparr>json_ID = None, json_service_name = None, json_price = Some 20,
        json_user_id = None, json_start_date = None, json_end_date = None\<rparr>"
         and old = "\<lparr>ID = ''1'', ServiceName = ''Netflix'', Price = 15, UserID = ''u1'',
        StartDate = ''2024-01-01'', EndDate = []\<rparr>"
         and msg = "''unexpected EOF''"
         and p = "\<lparr>json_ID = None, json_service_name = None, json_price = Some 20,
        json_user_id = None, json_start_date = None, json_end_date = None\<rparr>"]
    updateSubscription_contract
      [where t = "[\<lparr>ID = ''1'', ServiceName = ''Netflix'', Price = 15, UserID = ''u1'',
        StartDate = ''2024-01-01'', EndDate = []\<rparr>]" and i = "''1''"
         and body = "Object \<lparr>json_ID = None, json_service_name = None, json_price = Some 20,
        json_user_id = None, json_start_date = None, json_end_date = None\<rparr>"
         and old = "\<lparr>ID = ''1'', ServiceName = ''Netflix'', Price = 15, UserID = ''u1'',
        StartDate = ''2024-01-01'', EndDate = []\<rparr>"
         and msg = "''unexpected EOF''"
         and p = "\<lparr>json_ID = Some [], json_service_name = Some ''Disney'', json_price = None,
        json_user_id = None, json_start_date = None, json_end_date = None\<rparr>"]
  by (simp add: First_def required_failures_def decode_into_def validation_message_def)

text \<open>
  C10. The claim: when the body of an update on an existing id carries an \<open>ID\<close> that
  differs from the path id, the write goes to (or creates) the record with the body's
  \<open>ID\<close> and the record at the path id keeps its values. With the empty string as the
  body's \<open>ID\<close> and a record of empty id in the table, nothing is written: that record
  keeps its values too.
\<close>

theorem updateSubscription_empty_body_id_lost:
  "updateSubscription
     [\<lparr>ID = [], ServiceName = ''Hulu'', Price = 5, UserID = ''u2'',
        StartDate = ''2024-03-01'', EndDate = []\<rparr>,
      \<lparr>ID = ''9'', ServiceName = ''Prime'', Price = 12, UserID = ''u5'',
        StartDate = ''2024-06-01'', EndDate = []\<rparr>] ''9''
     (Object \<lparr>json_ID = Some [], json_service_name = None, json_price = Some 99,
        json_user_id = None, json_start_date = None, json_end_date = None\<rparr>) =
   ([\<lparr>ID = [], ServiceName = ''Hulu'', Price = 5, UserID = ''u2'',
        StartDate = ''2024-03-01'', EndDate = []\<rparr>,
     \<lparr>ID = ''9'', ServiceName = ''Prime'', Price = 12, UserID = ''u5'',
        StartDate = ''2024-06-01'', EndDate = []\<rparr>],
    (200, JSubscription \<lparr>ID = [], ServiceName = ''Prime'', Price = 99, UserID = ''u5'',
        StartDate = ''2024-06-01'', EndDate = []\<rparr>))
   \<and> First (fst (updateSubscription
       [\<lparr>ID = [], ServiceName = ''Hulu'', Price = 5, UserID = ''u2'',
        StartDate = ''2024-03-01'', EndDate = []\<rparr>,
        \<lparr>ID = ''9'', ServiceName = ''Prime'', Price = 12, UserID = ''u5'',
        StartDate = ''2024-06-01'', EndDate = []\<rparr>] ''9''
       (Object \<lparr>json_ID = Some [], json_service_name = None, json_price = Some 99,
        json_user_id = None, json_start_date = None, json_end_date = None\<rparr>))) [] =
     Inr \<lparr>ID = [], ServiceName = ''Hulu'', Price = 5, UserID = ''u2'',
        StartDate = ''2024-03-01'', EndDate = []\<rparr>"
  by (simp add: updateSubscription_def First_def ShouldBindJSON_def required_failures_def
      decode_into_def Save_def Create_def)

text \<open>
  C10, amended. When the fetched record is \<open>old\<close>, the body carries an \<open>ID\<close> \<open>j\<close> that
  differs from the path id, and the merged record passes validation, the merged record
  has the id \<open>j\<close>, the path id still gives \<open>old\<close> afterwards and every row whose id is
  not \<open>j\<close> is as before. When moreover \<open>j\<close> is not the empty string, or no stored record
  has the empty id, update answers 200 with the merged record, the id \<open>j\<close> then gives the
  merged record, and the merged record has replaced the row \<open>j\<close> or, when there was
  none, has been appended.
\<close>

theorem updateSubscription_body_id:
  assumes "First t i = Inr old" and "json_ID p = Some j" and "j \<noteq> i"
      and "required_failures (decode_into old p) = []"
  shows "ID (decode_into old p) = j
     \<and> First (fst (updateSubscription t i (Object p))) i = Inr old
     \<and> filter (\<lambda>r. ID r \<noteq> j) (fst (updateSubscription t i (Object p))) =
         filter (\<lambda>r. ID r \<noteq> j) t
     \<and> (j \<noteq> [] \<or> [] \<notin> set (map ID t) \<longrightarrow>
          snd (updateSubscription t i (Object p)) = (200, JSubscription (decode_into old p))
          \<and> First (fst (updateSubscription t i (Object p))) j = Inr (decode_into old p)
          \<and> (if j \<in> set (map ID t)
              then map ID (fst (updateSubscription t i (Object p))) = map ID t
              else fst (updateSubscription t i (Object p)) = t @ [decode_into old p]))"
proof -
  have idj: "ID (decode_into old p) = j"
    using assms(2) by (simp add: decode_into_def)
  have upd: "updateSubscription t i (Object p) =
      (fst (Save t (decode_into old p)), (200, JSubscription (decode_into old p)))"
    using assms(1,4) by (rule updateSubscription_saved)
  have other: "First (fst (Save t (decode_into old p))) i = Inr old"
    using Save_First_other [of i "decode_into old p" t] assms(1,3) by (simp add: idj)
  have frame: "filter (\<lambda>r. ID r \<noteq> j) (fst (Save t (decode_into old p))) =
      filter (\<lambda>r. ID r \<noteq> j) t"
    using Save_filter_other [of "decode_into old p" t] by (simp add: idj)
  have lands: "j \<noteq> [] \<or> [] \<notin> set (map ID t) \<longrightarrow>
      First (fst (Save t (decode_into old p))) j = Inr (decode_into old p)
      \<and> (if j \<in> set (map ID t)
          then map ID (fst (Save t (decode_into old p))) = map ID t
          else fst (Save t (decode_into old p)) = t @ [decode_into old p])"
    using Save_First_same [of "decode_into old p" t] Save_shape [of "decode_into old p" t]
    by (simp only: idj) blast
  show ?thesis
    using idj other frame lands by (simp add: upd)
qed

theorem updateSubscription_body_id_witness:
  "updateSubscription [\<lparr>ID = ''9'', ServiceName = ''Prime'', Price = 12, UserID = ''u5'',
        StartDate = ''2024-06-01'', EndDate = []\<rparr>] ''9''
     (Object \<lparr>json_ID = Some ''10'', json_service_name = None, json_price = Some 14,
        json_user_id = None, json_start_date = None, json_end_date = None\<rparr>) =
   ([\<lparr>ID = ''9'', ServiceName = ''Prime'', Price = 12, UserID = ''u5'',
        StartDate = ''2024-06-01'', EndDate = []\<rparr>,
     \<lparr>ID = ''10'', ServiceName = ''Prime'', Price = 14, UserID = ''u5'',
        StartDate = ''2024-06-01'', EndDate = []\<rparr>],
    (200, JSubscription \<lparr>ID = ''10'', ServiceName = ''Prime'', Price = 14, UserID = ''u5'',
        StartDate = ''2024-06-01'', EndDate = []\<rparr>))
   \<and> updateSubscription
     [\<lparr>ID = ''9'', ServiceName = ''Prime'', Price = 12, UserID = ''u5'',
        StartDate = ''2024-06-01'', EndDate = []\<rparr>,
      \<lparr>ID = ''10'', ServiceName = ''Max'', Price = 30, UserID = ''u6'',
        StartDate = ''2024-07-01'', EndDate = []\<rparr>] ''9''
     (Object \<lparr>json_ID = Some ''10'', json_service_name = None, json_price = Some 14,
        json_user_id = None, json_start_date = None, json_end_date = None\<rparr>) =
   ([\<lparr>ID = ''9'', ServiceName = ''Prime'', Price = 12, UserID = ''u5'',
        StartDate = ''2024-06-01'', EndDate = []\<rparr>,
     \<lparr>ID = ''10'', ServiceName = ''Prime'', Price = 14, UserID = ''u5'',
        StartDate = ''2024-06-01'', EndDate = []\<rparr>],
    (200, JSubscription \<lparr>ID = ''10'', ServiceName = ''Prime'', Price = 14, UserID = ''u5'',
        StartDate = ''2024-06-01'', EndDate = []\<rparr>))
   \<and> updateSubscription [\<lparr>ID = ''9'', ServiceName = ''Prime'', Price = 12, UserID = ''u5'',
        StartDate = ''2024-06-01'', EndDate = []\<rparr>] ''9''
     (Object \<lparr>json_ID = Some [], json_service_name = None, json_price = Some 14,
        json_user_id = None, json_start_date = None, json_end_date = None\<rparr>) =
   ([\<lparr>ID = ''9'', ServiceName = ''Prime'', Price = 12, UserID = ''u5'',
        StartDate = ''2024-06-01'', EndDate = []\<rparr>,
     \<lparr>ID = [], ServiceName = ''Prime'', Price = 14, UserID = ''u5'',
        StartDate = ''2024-06-01'', EndDate = []\<rparr>],
    (200, JSubscription \<lparr>ID = [], ServiceName = ''Prime'', Price = 14, UserID = ''u5'',
        StartDate = ''2024-06-01'', EndDate = []\<rparr>))"
proof -
  have f1: "First [\<lparr>ID = ''9'', ServiceName = ''Prime'', Price = 12, UserID = ''u5'',
        StartDate = ''2024-06-01'', EndDate = []\<rparr>] ''9'' =
      Inr \<lparr>ID = ''9'', ServiceName = ''Prime'', Price = 12, UserID = ''u5'',
        StartDate = ''2024-06-01'', EndDate = []\<rparr>"
    by (simp add: First_def)
  have f2: "First [\<lparr>ID = ''9'', ServiceName = ''Prime'', Price = 12, UserID = ''u5'',
        StartDate = ''2024-06-01'', EndDate = []\<rparr>,
      \<lparr>ID = ''10'', ServiceName = ''Max'', Price = 30, UserID = ''u6'',
        StartDate = ''2024-07-01'', EndDate = []\<rparr>] ''9'' =
      Inr \<lparr>ID = ''9'', ServiceName = ''Prime'', Price = 12, UserID = ''u5'',
        StartDate = ''2024-06-01'', EndDate = []\<rparr>"
    by (simp add: First_def)
  have ok: "required_failures (decode_into \<lparr>ID = ''9'', ServiceName = ''Prime'', Price = 12, UserID = ''u5'',
        StartDate = ''2024-06-01'', EndDate = []\<rparr>
      \<lparr>json_ID = Some ''10'', json_service_name = None, json_price = Some 14,
        json_user_id = None, json_start_date = None, json_end_date = None\<rparr>) = []"
    by (simp add: required_failures_def decode_into_def)
  have okE: "required_failures (decode_into \<lparr>ID = ''9'', ServiceName = ''Prime'', Price = 12, UserID = ''u5'',
        StartDate = ''2024-06-01'', EndDate = []\<rparr>
      \<lparr>json_ID = Some [], json_service_name = None, json_price = Some 14,
        json_user_id = None, json_start_date = None, json_end_date = None\<rparr>) = []"
    by (simp add: required_failures_def decode_into_def)
  have j10: "json_ID \<lparr>json_ID = Some ''10'', json_service_name = None, json_price = Some 14,
        json_user_id = None, json_start_date = None, json_end_date = None\<rparr> = Some ''10''"
    by simp
  have jE: "json_ID \<lparr>json_ID = Some [], json_service_name = None, json_price = Some 14,
        json_user_id = None, json_start_date = None, json_end_date = None\<rparr> = Some []"
    by simp
  from updateSubscription_body_id [OF f1 j10 _ ok] updateSubscription_body_id [OF f2 j10 _ ok]
    updateSubscription_body_id [OF f1 jE _ okE]
  show ?thesis
    by (simp add: updateSubscription_def First_def ShouldBindJSON_def required_failures_def
      decode_into_def Save_def Create_def)
qed

section \<open>Uniqueness of ids\<close>

lemma createSubscription_bound:
  "ShouldBindJSON body zero_Subscription = Inr s \<Longrightarrow>
   createSubscription t body = (fst (Create t s), (201, JSubscription s))"
  by (simp add: createSubscription_def split: prod.splits)

lemma createSubscription_refused:
  "ShouldBindJSON body zero_Subscription = Inl msg \<Longrightarrow>
   createSubscription t body = (t, (400, ErrorResponse msg))"
  by (simp add: createSubscription_def)

lemma deleteSubscription_table:
  "fst (deleteSubscription sql t i) = fst (Delete sql t i)"
  by (simp add: deleteSubscription_def split: prod.splits option.splits)

lemma Create_distinct: "distinct (map ID t) \<Longrightarrow> distinct (map ID (fst (Create t s)))"
  by (simp add: Create_def)

lemma Save_distinct:
  assumes "distinct (map ID t)"
  shows "distinct (map ID (fst (Save t s)))"
proof (cases "ID s \<noteq> [] \<and> ID s \<in> set (map ID t)")
  case True
  then have "fst (Save t s) = map (\<lambda>r. if ID r = ID s then s else r) t"
    by (simp add: Save_def)
  then show ?thesis
    using assms map_ID_replace [of s t] by presburger
next
  case False
  then show ?thesis
    using assms by (auto simp: Save_def Create_def)
qed

lemma Delete_distinct: "distinct (map ID t) \<Longrightarrow> distinct (map ID (fst (Delete sql t i)))"
  by (simp add: Delete_def distinct_map_filter split: condition.splits option.splits)

text \<open>
  C8. The claim: a record's id is given by the client or generated by the service, so
  that a create without an id still yields a record with a unique identifier, and ids
  stay unique across the stored records. Nothing generates an id: two creates without
  one both answer 201 with a record whose id is the empty string, and only the first is
  stored.
\<close>

theorem createSubscription_no_id_twice:
  "createSubscription [] (Object \<lparr>json_ID = None, json_service_name = Some ''Netflix'', json_price = Some 15,
        json_user_id = Some ''u1'', json_start_date = Some ''2024-01-01'', json_end_date = None\<rparr>) =
   ([\<lparr>ID = [], ServiceName = ''Netflix'', Price = 15, UserID = ''u1'',
        StartDate = ''2024-01-01'', EndDate = []\<rparr>],
    (201, JSubscription \<lparr>ID = [], ServiceName = ''Netflix'', Price = 15, UserID = ''u1'',
        StartDate = ''2024-01-01'', EndDate = []\<rparr>))
   \<and> createSubscription [\<lparr>ID = [], ServiceName = ''Netflix'', Price = 15, UserID = ''u1'',
        StartDate = ''2024-01-01'', EndDate = []\<rparr>]
     (Object \<lparr>json_ID = None, json_service_name = Some ''Netflix'', json_price = Some 15,
        json_user_id = Some ''u1'', json_start_date = Some ''2024-02-01'', json_end_date = None\<rparr>) =
   ([\<lparr>ID = [], ServiceName = ''Netflix'', Price = 15, UserID = ''u1'',
        StartDate = ''2024-01-01'', EndDate = []\<rparr>],
    (201, JSubscription \<lparr>ID = [], ServiceName = ''Netflix'', Price = 15, UserID = ''u1'',
        StartDate = ''2024-02-01'', EndDate = []\<rparr>))"
  by (simp add: createSubscription_def ShouldBindJSON_def required_failures_def
      decode_into_def zero_Subscription_def Create_def)

text \<open>
  C8, amended. The record a create answers with carries the id of the payload, the
  empty string when the payload has none; and when the ids of the stored records are
  pairwise distinct, they still are after a create, an update and a delete (the other
  three operations do not write).
\<close>

theorem id_unique_preserved:
  assumes "distinct (map ID t)"
  shows "distinct (map ID (fst (createSubscription t body)))
     \<and> distinct (map ID (fst (updateSubscription t i body')))
     \<and> distinct (map ID (fst (deleteSubscription sql t k)))
     \<and> (createSubscription t (Object p) = (t', (201, JSubscription s)) \<longrightarrow>
           ID s = (case json_ID p of None \<Rightarrow> [] | Some v \<Rightarrow> v))"
proof -
  have c: "distinct (map ID (fst (createSubscription t body)))"
    using assms Create_distinct [OF assms]
    by (cases "ShouldBindJSON body zero_Subscription")
       (simp_all add: createSubscription_bound createSubscription_refused)
  have u: "distinct (map ID (fst (updateSubscription t i body')))"
  proof (cases "First t i")
    case (Inl e)
    then show ?thesis using assms by (simp add: updateSubscription_def)
  next
    case (Inr old)
    then show ?thesis
      using assms Save_distinct [OF assms]
      by (cases "ShouldBindJSON body' old")
         (simp_all add: updateSubscription_bound updateSubscription_refused)
  qed
  have d: "distinct (map ID (fst (deleteSubscription sql t k)))"
    using Delete_distinct [OF assms, of sql k]
    by (simp add: deleteSubscription_table)
  have g: "createSubscription t (Object p) = (t', (201, JSubscription s)) \<longrightarrow>
           ID s = (case json_ID p of None \<Rightarrow> [] | Some v \<Rightarrow> v)"
    by (auto simp: createSubscription_def ShouldBindJSON_Object decode_into_def
        zero_Subscription_def split: if_splits prod.splits option.splits)
  show ?thesis using c u d g by simp
qed

theorem id_unique_preserved_witness:
  "distinct (map ID [\<lparr>ID = ''1'', ServiceName = ''Netflix'', Price = 15, UserID = ''u1'',
        StartDate = ''2024-01-01'', EndDate = []\<rparr>])
   \<and> distinct (map ID (fst (createSubscription [\<lparr>ID = ''1'', ServiceName = ''Netflix'', Price = 15, UserID = ''u1'',
        StartDate = ''2024-01-01'', EndDate = []\<rparr>]
       (Object \<lparr>json_ID = Some ''2'', json_service_name = Some ''Hulu'', json_price = Some 8,
        json_user_id = Some ''u2'', json_start_date = Some ''2024-03-01'', json_end_date = None\<rparr>))))
   \<and> distinct (map ID (fst (updateSubscription [\<lparr>ID = ''1'', ServiceName = ''Netflix'', Price = 15, UserID = ''u1'',
        StartDate = ''2024-01-01'', EndDate = []\<rparr>] ''1''
       (Object \<lparr>json_ID = Some ''2'', json_service_name = Some ''Hulu'', json_price = Some 8,
        json_user_id = Some ''u2'', json_start_date = Some ''2024-03-01'', json_end_date = None\<rparr>))))
   \<and> distinct (map ID (fst (deleteSubscription (\<lambda>w t. None) [\<lparr>ID = ''1'', ServiceName = ''Netflix'', Price = 15, UserID = ''u1'',
        StartDate = ''2024-01-01'', EndDate = []\<rparr>] ''1'')))
   \<and> createSubscription [\<lparr>ID = ''1'', ServiceName = ''Netflix'', Price = 15, UserID = ''u1'',
        StartDate = ''2024-01-01'', EndDate = []\<rparr>]
       (Object \<lparr>json_ID = Some ''2'', json_service_name = Some ''Hulu'', json_price = Some 8,
        json_user_id = Some ''u2'', json_start_date = Some ''2024-03-01'', json_end_date = None\<rparr>) =
     ([\<lparr>ID = ''1'', ServiceName = ''Netflix'', Price = 15, UserID = ''u1'',
        StartDate = ''2024-01-01'', EndDate = []\<rparr>,
       \<lparr>ID = ''2'', ServiceName = ''Hulu'', Price = 8, UserID = ''u2'',
        StartDate = ''2024-03-01'', EndDate = []\<rparr>],
      (201, JSubscription \<lparr>ID = ''2'', ServiceName = ''Hulu'', Price = 8, UserID = ''u2'',
        StartDate = ''2024-03-01'', EndDate = []\<rparr>))"
proof -
  have d: "distinct (map ID [\<lparr>ID = ''1'', ServiceName = ''Netflix'', Price = 15, UserID = ''u1'',
        StartDate = ''2024-01-01'', EndDate = []\<rparr>])"
    by simp
  have c: "createSubscription [\<lparr>ID = ''1'', ServiceName = ''Netflix'', Price = 15, UserID = ''u1'',
        StartDate = ''2024-01-01'', EndDate = []\<rparr>]
       (Object \<lparr>json_ID = Some ''2'', json_service_name = Some ''Hulu'', json_price = Some 8,
        json_user_id = Some ''u2'', json_start_date = Some ''2024-03-01'', json_end_date = None\<rparr>) =
     ([\<lparr>ID = ''1'', ServiceName = ''Netflix'', Price = 15, UserID = ''u1'',
        StartDate = ''2024-01-01'', EndDate = []\<rparr>,
       \<lparr>ID = ''2'', ServiceName = ''Hulu'', Price = 8, UserID = ''u2'',
        StartDate = ''2024-03-01'', EndDate = []\<rparr>],
      (201, JSubscription \<lparr>ID = ''2'', ServiceName = ''Hulu'', Price = 8, UserID = ''u2'',
        StartDate = ''2024-03-01'', EndDate = []\<rparr>))"
    by (simp add: createSubscription_def ShouldBindJSON_def required_failures_def
      decode_into_def zero_Subscription_def Create_def)
  from id_unique_preserved [OF d] d c show ?thesis
    by blast
qed

section \<open>Outcome of startup\<close>

lemma Load_Parsed: "Load (Parsed m) env = Some (m ++ env)"
  by (simp add: Load_def map_add_def)

lemma main_Parsed:
  "dotenv_file h = Parsed m \<Longrightarrow>
   main h =
     (if \<not> opens h (Getenv (m ++ environ h) ''DATABASE_URL'')
        then Exit ''Error connecting to the database''
      else if \<not> migrates h (Getenv (m ++ environ h) ''DATABASE_URL'')
        then Exit ''Error migrating database''
      else Listening (Getenv (m ++ environ h) ''DATABASE_URL''))"
  by (simp add: main_def Load_Parsed initDB_def Let_def)

lemma main_no_dotenv:
  "dotenv_file h = Missing \<or> dotenv_file h = Unparsable \<Longrightarrow>
   main h = Exit ''Error loading .env file''"
  by (auto simp: main_def Load_def)

text \<open>
  C7. The claim: the connection string comes from the process environment, the file
  \<open>.env\<close> is loaded only if present and its absence does not prevent startup, and a
  startup failure ends the process before any request is served. Without \<open>.env\<close> the
  process exits, although the environment has the connection string and the database
  is reachable.
\<close>

theorem main_without_dotenv_exits:
  "main \<lparr>environ = [''DATABASE_URL'' \<mapsto> ''postgres://db/subs''], dotenv_file = Missing,
          opens = (\<lambda>dsn. True), migrates = (\<lambda>dsn. True)\<rparr> =
   Exit ''Error loading .env file''"
  by (simp add: main_def Load_def)

text \<open>
  C7, amended. The process reaches \<^verbatim>\<open>r.Run()\<close> exactly when \<open>.env\<close> is read and parsed,
  and the database opens and migrates on the value of \<open>DATABASE_URL\<close> in the
  environment as the file has completed it; a value the process environment already
  has wins over the file's. A missing or unparsable \<open>.env\<close>, a failed connection and a
  failed migration each end the process at once with their own message.
\<close>

theorem main_startup:
  "(main h = Listening dsn \<longleftrightarrow>
      (\<exists>m. dotenv_file h = Parsed m \<and> dsn = Getenv (m ++ environ h) ''DATABASE_URL''
           \<and> opens h dsn \<and> migrates h dsn))
   \<and> (dotenv_file h = Missing \<or> dotenv_file h = Unparsable \<longrightarrow>
        main h = Exit ''Error loading .env file'')
   \<and> (dotenv_file h = Parsed m \<and> \<not> opens h (Getenv (m ++ environ h) ''DATABASE_URL'') \<longrightarrow>
        main h = Exit ''Error connecting to the database'')
   \<and> (dotenv_file h = Parsed m \<and> opens h (Getenv (m ++ environ h) ''DATABASE_URL'')
        \<and> \<not> migrates h (Getenv (m ++ environ h) ''DATABASE_URL'') \<longrightarrow>
        main h = Exit ''Error migrating database'')
   \<and> (environ h ''DATABASE_URL'' = Some v \<longrightarrow> Getenv (m ++ environ h) ''DATABASE_URL'' = v)"
proof -
  have a: "main h = Listening dsn \<longleftrightarrow>
      (\<exists>m. dotenv_file h = Parsed m \<and> dsn = Getenv (m ++ environ h) ''DATABASE_URL''
           \<and> opens h dsn \<and> migrates h dsn)"
  proof (cases "dotenv_file h")
    case Missing
    then show ?thesis by (simp add: main_no_dotenv)
  next
    case Unparsable
    then show ?thesis by (simp add: main_no_dotenv)
  next
    case (Parsed m')
    then show ?thesis by (auto simp: main_Parsed)
  qed
  have b: "dotenv_file h = Missing \<or> dotenv_file h = Unparsable \<longrightarrow>
        main h = Exit ''Error loading .env file''"
    by (simp add: main_no_dotenv)
  have c: "dotenv_file h = Parsed m \<and> \<not> opens h (Getenv (m ++ environ h) ''DATABASE_URL'') \<longrightarrow>
        main h = Exit ''Error connecting to the database''"
    by (simp add: main_Parsed)
  have d: "dotenv_file h = Parsed m \<and> opens h (Getenv (m ++ environ h) ''DATABASE_URL'')
        \<and> \<not> migrates h (Getenv (m ++ environ h) ''DATABASE_URL'') \<longrightarrow>
        main h = Exit ''Error migrating database''"
    by (simp add: main_Parsed)
  have e: "environ h ''DATABASE_URL'' = Some v \<longrightarrow> Getenv (m ++ environ h) ''DATABASE_URL'' = v"
    by (simp add: Getenv_def map_add_def)
  show ?thesis using a b c d e by blast
qed

theorem main_startup_witness:
  "main \<lparr>environ = [''DATABASE_URL'' \<mapsto> ''postgres://db/subs''],
          dotenv_file = Parsed [''DATABASE_URL'' \<mapsto> ''postgres://file/subs''],
          opens = (\<lambda>dsn. True), migrates = (\<lambda>dsn. True)\<rparr> =
   Listening ''postgres://db/subs''
   \<and> main \<lparr>environ = Map.empty,
          dotenv_file = Parsed [''DATABASE_URL'' \<mapsto> ''postgres://file/subs''],
          opens = (\<lambda>dsn. True), migrates = (\<lambda>dsn. True)\<rparr> =
   Listening ''postgres://file/subs''
   \<and> main \<lparr>environ = [''DATABASE_URL'' \<mapsto> ''postgres://db/subs''],
          dotenv_file = Parsed Map.empty,
          opens = (\<lambda>dsn. False), migrates = (\<lambda>dsn. True)\<rparr> =
   Exit ''Error connecting to the database''
   \<and> main \<lparr>environ = [''DATABASE_URL'' \<mapsto> ''postgres://db/subs''],
          dotenv_file = Unparsable,
          opens = (\<lambda>dsn. True), migrates = (\<lambda>dsn. True)\<rparr> =
   Exit ''Error loading .env file''"
  using
    main_startup
      [where h = "\<lparr>environ = [''DATABASE_URL'' \<mapsto> ''postgres://db/subs''],
          dotenv_file = Parsed [''DATABASE_URL'' \<mapsto> ''postgres://file/subs''],
          opens = (\<lambda>dsn. True), migrates = (\<lambda>dsn. True)\<rparr>"
         and dsn = "''postgres://db/subs''"
         and m = "[''DATABASE_URL'' \<mapsto> ''postgres://file/subs'']"
         and v = "''postgres://db/subs''"]
    main_startup
      [where h = "\<lparr>environ = Map.empty,
          dotenv_file = Parsed [''DATABASE_URL'' \<mapsto> ''postgres://file/subs''],
          opens = (\<lambda>dsn. True), migrates = (\<lambda>dsn. True)\<rparr>"
         and dsn = "''postgres://file/subs''"
         and m = "[''DATABASE_URL'' \<mapsto> ''postgres://file/subs'']"
         and v = "''postgres://db/subs''"]
    main_startup
      [where h = "\<lparr>environ = [''DATABASE_URL'' \<mapsto> ''postgres://db/subs''],
          dotenv_file = Parsed Map.empty,
          opens = (\<lambda>dsn. False), migrates = (\<lambda>dsn. True)\<rparr>"
         and dsn = "''postgres://db/subs''"
         and m = "Map.empty"
         and v = "''postgres://db/subs''"]
    main_startup
      [where h = "\<lparr>environ = [''DATABASE_URL'' \<mapsto> ''postgres://db/subs''],
          dotenv_file = Unparsable,
          opens = (\<lambda>dsn. True), migrates = (\<lambda>dsn. True)\<rparr>"
         and dsn = "''postgres://db/subs''"
         and m = "Map.empty"
         and v = "''postgres://db/subs''"]
  by (simp add: Getenv_def map_add_def)

section \<open>Get by id\<close>

text \<open>
  A get answers 404 for an id no record has, and 200 with a stored record of that id
  otherwise; it finds a record that create has just stored, and no longer finds an id
  that delete was given as a decimal integer.
\<close>

lemma getSubscription_absent:
  "i \<notin> set (map ID t) \<Longrightarrow>
   getSubscription t i = (404, ErrorResponse ''Subscription not found!'')"
  by (simp add: getSubscription_def First_absent)

lemma getSubscription_present:
  "i \<in> set (map ID t) \<Longrightarrow>
   \<exists>r. getSubscription t i = (200, JSubscription r) \<and> r \<in> set t \<and> ID r = i"
  using First_present [of i t] by (auto simp: getSubscription_def)

lemma getSubscription_after_create:
  "ShouldBindJSON body zero_Subscription = Inr s \<Longrightarrow> ID s \<notin> set (map ID t) \<Longrightarrow>
   getSubscription (fst (createSubscription t body)) (ID s) = (200, JSubscription s)"
  by (simp add: createSubscription_bound Create_def getSubscription_def First_append
      First_absent First_Cons)

lemma getSubscription_after_delete:
  "Atoi i \<noteq> None \<Longrightarrow>
   getSubscription (fst (deleteSubscription sql t i)) i =
     (404, ErrorResponse ''Subscription not found!'')"
proof -
  assume "Atoi i \<noteq> None"
  then have "fst (deleteSubscription sql t i) = filter (\<lambda>r. ID r \<noteq> i) t"
    by (simp add: deleteSubscription_numeric_id)
  moreover have "i \<notin> set (map ID (filter (\<lambda>r. ID r \<noteq> i) t))"
    by auto
  then have "getSubscription (filter (\<lambda>r. ID r \<noteq> i) t) i =
      (404, ErrorResponse ''Subscription not found!'')"
    by (rule getSubscription_absent)
  ultimately show ?thesis
    by simp
qed

end
